theory Spec2Isabelle
  imports Main
begin

section \<open>Path expansion\<close>

text \<open>
  The variables of the environment are a finite dictionary of strings, \<open>None\<close> for a
  name that is not set.
\<close>

type_synonym environment = "string \<Rightarrow> string option"

text \<open>
  \<^verbatim>\<open>process.env\<close> is an object: a lookup \<^verbatim>\<open>process.env[n]\<close> of a name that is not
  set goes on to the properties every object inherits from \<^verbatim>\<open>Object.prototype\<close>. These
  are functions, and \<^verbatim>\<open>__proto__\<close> is the prototype object itself; the table gives the
  text that \<^verbatim>\<open>replace\<close> makes of each when a callback returns it.
\<close>

definition objectPrototype :: "string \<Rightarrow> string option" where
  "objectPrototype =
     map_of
       [(''constructor'', ''function Object() { [native code] }''),
        (''toString'', ''function toString() { [native code] }''),
        (''toLocaleString'', ''function toLocaleString() { [native code] }''),
        (''valueOf'', ''function valueOf() { [native code] }''),
        (''hasOwnProperty'', ''function hasOwnProperty() { [native code] }''),
        (''isPrototypeOf'', ''function isPrototypeOf() { [native code] }''),
        (''propertyIsEnumerable'', ''function propertyIsEnumerable() { [native code] }''),
        (''__defineGetter__'', ''function __defineGetter__() { [native code] }''),
        (''__defineSetter__'', ''function __defineSetter__() { [native code] }''),
        (''__lookupGetter__'', ''function __lookupGetter__() { [native code] }''),
        (''__lookupSetter__'', ''function __lookupSetter__() { [native code] }''),
        (''__proto__'', ''[object Object]'')]"

text \<open>\<^verbatim>\<open>process.env[n]\<close>, as the text of the value found, \<open>None\<close> for \<^verbatim>\<open>undefined\<close>: a
  variable that is set comes before an inherited property of the same name.\<close>

definition processEnvGet :: "environment \<Rightarrow> string \<Rightarrow> string option" where
  "processEnvGet env n = (case env n of Some v \<Rightarrow> Some v | None \<Rightarrow> objectPrototype n)"

text \<open>\<^verbatim>\<open>process.env[n] || ""\<close>: \<^verbatim>\<open>undefined\<close> and the empty value both give the empty
  string; every inherited property is truthy.\<close>

definition envOrEmpty :: "environment \<Rightarrow> string \<Rightarrow> string" where
  "envOrEmpty env n = (case processEnvGet env n of None \<Rightarrow> [] | Some v \<Rightarrow> v)"

text \<open>
  \<^verbatim>\<open>String.prototype.replace\<close> with a replacement that is a string reads the
  patterns \<^verbatim>\<open>$$\<close>, \<^verbatim>\<open>$&\<close>, \<^verbatim>\<open>$`\<close> and \<^verbatim>\<open>$'\<close> in it (the regular expression of the
  home-directory step has no capture group, so a \<^verbatim>\<open>$\<close> before a digit or \<^verbatim>\<open><\<close> stays as
  it is). The arguments are the matched text, the text before and after the match, and
  the replacement template.
\<close>

fun getSubstitution :: "string \<Rightarrow> string \<Rightarrow> string \<Rightarrow> string \<Rightarrow> string" where
  "getSubstitution m b a [] = []"
| "getSubstitution m b a [c] = [c]"
| "getSubstitution m b a (c # d # r) =
     (if c = CHR ''$'' \<and> d = CHR ''$'' then CHR ''$'' # getSubstitution m b a r
      else if c = CHR ''$'' \<and> d = CHR ''&'' then m @ getSubstitution m b a r
      else if c = CHR ''$'' \<and> d = CHR 0x60 then b @ getSubstitution m b a r
      else if c = CHR ''$'' \<and> d = CHR 0x27 then a @ getSubstitution m b a r
      else c # getSubstitution m b a (d # r))"

text \<open>\<^verbatim>\<open>pth.replace(/^~(?=$|\/|\\)/, os.homedir())\<close>: a leading tilde that ends the
  string or stands before a slash or a backslash.\<close>

fun replaceTilde :: "string \<Rightarrow> string \<Rightarrow> string" where
  "replaceTilde home [] = []"
| "replaceTilde home (c # cs) =
     (if c = CHR ''~'' \<and> (case cs of [] \<Rightarrow> True | d # _ \<Rightarrow> d = CHR ''/'' \<or> d = CHR 0x5C)
      then getSubstitution ''~'' [] cs home @ cs
      else c # cs)"

text \<open>\<^verbatim>\<open>.replace(/%([^%]+)%/g, (_, n) => process.env[n] || "")\<close>: scanning from the
  left, a percent sign, the longest run of other characters, which must not be empty,
  and a closing percent sign; the scan goes on after the closing sign.\<close>

function replacePercent :: "environment \<Rightarrow> string \<Rightarrow> string" where
  "replacePercent env [] = []"
| "replacePercent env (c # cs) =
     (if c = CHR ''%''
         \<and> takeWhile (\<lambda>x. x \<noteq> CHR ''%'') cs \<noteq> []
         \<and> dropWhile (\<lambda>x. x \<noteq> CHR ''%'') cs \<noteq> []
      then envOrEmpty env (takeWhile (\<lambda>x. x \<noteq> CHR ''%'') cs)
           @ replacePercent env (tl (dropWhile (\<lambda>x. x \<noteq> CHR ''%'') cs))
      else c # replacePercent env cs)"
  by pat_completeness auto
termination
proof (relation "measure (\<lambda>(env, s). length s)")
  show "wf (measure (\<lambda>(env :: environment, s :: string). length s))" by simp
next
  fix env :: environment and c :: char and cs :: string
  have "length (tl (dropWhile (\<lambda>x. x \<noteq> CHR ''%'') cs)) \<le> length cs"
    using length_dropWhile_le [of "\<lambda>x. x \<noteq> CHR ''%''" cs] by simp
  then show "((env, tl (dropWhile (\<lambda>x. x \<noteq> CHR ''%'') cs)), (env, c # cs))
      \<in> measure (\<lambda>(env, s). length s)" by simp
next
  fix env :: environment and c :: char and cs :: string
  show "((env, cs), (env, c # cs)) \<in> measure (\<lambda>(env, s). length s)" by simp
qed

text \<open>The characters of \<^verbatim>\<open>[A-Za-z0-9_]\<close>.\<close>

definition isWord :: "char \<Rightarrow> bool" where
  "isWord c = (c \<in> set (''ABCDEFGHIJKLMNOPQRSTUVWXYZ'' @ ''abcdefghijklmnopqrstuvwxyz''
                          @ ''0123456789_''))"

text \<open>\<^verbatim>\<open>.replace(/\$([A-Za-z0-9_]+)/g, (_, n) => process.env[n] || "")\<close>: a dollar
  sign and the longest run of word characters after it, which must not be empty.\<close>

function replaceDollar :: "environment \<Rightarrow> string \<Rightarrow> string" where
  "replaceDollar env [] = []"
| "replaceDollar env (c # cs) =
     (if c = CHR ''$'' \<and> takeWhile isWord cs \<noteq> []
      then envOrEmpty env (takeWhile isWord cs) @ replaceDollar env (dropWhile isWord cs)
      else c # replaceDollar env cs)"
  by pat_completeness auto
termination
proof (relation "measure (\<lambda>(env, s). length s)")
  show "wf (measure (\<lambda>(env :: environment, s :: string). length s))" by simp
next
  fix env :: environment and c :: char and cs :: string
  show "((env, dropWhile isWord cs), (env, c # cs)) \<in> measure (\<lambda>(env, s). length s)"
    using length_dropWhile_le [of isWord cs] by simp
next
  fix env :: environment and c :: char and cs :: string
  show "((env, cs), (env, c # cs)) \<in> measure (\<lambda>(env, s). length s)" by simp
qed

definition expandPath :: "string \<Rightarrow> environment \<Rightarrow> string \<Rightarrow> string" where
  "expandPath home env pth =
     replaceDollar env (replacePercent env (replaceTilde home pth))"

section \<open>Configuration\<close>

datatype PanelBehavior = Keep | Hide | HideRestore

record PanelOptions =
  sidebar :: PanelBehavior
  panel :: PanelBehavior
  secondarySidebar :: PanelBehavior

record JJUIConfig =
  jjuiPath :: string
  autoMaximizeWindow :: bool
  panels :: PanelOptions

section \<open>The host\<close>

text \<open>
  Terminals are objects compared by identity (\<^verbatim>\<open>===\<close>): a terminal is its number. A
  document or notebook is its URI, a workspace folder is its \<^verbatim>\<open>uri.fsPath\<close>.
\<close>

type_synonym terminal = nat
type_synonym uri = string
type_synonym folder = string

text \<open>
  What the extension reads from the editor, the operating system and the process while
  one handler runs. \<open>configString\<close>, \<open>configBool\<close> and \<open>configBehavior\<close> are
  \<^verbatim>\<open>config.get\<close> of the section \<^verbatim>\<open>jjui-vscode\<close> without its default (\<open>None\<close> when the
  setting is absent); \<open>folderOf\<close> is \<^verbatim>\<open>vscode.workspace.getWorkspaceFolder\<close>;
  \<open>workspaceFolders\<close> is \<open>None\<close> for \<^verbatim>\<open>undefined\<close>; \<open>exec\<close> runs a command and gives
  its standard output, \<open>None\<close> when it fails; \<open>pathJoin\<close> and \<open>existsSync\<close> are
  \<^verbatim>\<open>path.join\<close> and \<^verbatim>\<open>fs.existsSync\<close>.
\<close>

record host =
  activeTextEditor :: "uri option"
  activeNotebookEditor :: "uri option"
  activeTerminal :: "terminal option"
  tabGroups :: "nat list list"
  workspaceFolders :: "folder list option"
  folderOf :: "uri \<Rightarrow> folder option"
  pathJoin :: "string \<Rightarrow> string \<Rightarrow> string"
  existsSync :: "string \<Rightarrow> bool"
  homedir :: string
  processEnv :: environment
  platform :: string
  exec :: "string \<Rightarrow> string option"
  configString :: "string \<Rightarrow> string option"
  configBool :: "string \<Rightarrow> bool option"
  configBehavior :: "string \<Rightarrow> PanelBehavior option"

datatype TerminalLocation = Panel | Editor

record TerminalOptions =
  name :: string
  cwd :: string
  location :: TerminalLocation
  shellPath :: "string option"
  shellArgs :: "string list option"

text \<open>The callbacks handed to \<^verbatim>\<open>setTimeout\<close>; \<open>PollFocus n\<close> is \<^verbatim>\<open>pollFocus\<close> with
  \<^verbatim>\<open>focusAttempts\<close> equal to \<open>n\<close>.\<close>

datatype callback = RefocusTerminal | PollFocus nat | FocusActiveEditorGroup

text \<open>The calls made to the host, in the order they are made.\<close>

datatype effect =
    ExecuteCommand string
  | SetContext string bool
  | ShowErrorMessage string
  | CreateTerminal terminal TerminalOptions
  | SendText terminal string
  | ShowTerminal terminal bool
  | DisposeTerminal terminal
  | SetTimeout callback nat

datatype error = AssertionError string | Error string | TypeError string

section \<open>The controller\<close>

text \<open>
  The module variables \<^verbatim>\<open>jjuiTerminal\<close>, \<^verbatim>\<open>globalConfig\<close> and \<^verbatim>\<open>globalConfigJSON\<close>,
  with the number of listeners registered with \<^verbatim>\<open>onDidCloseTerminal\<close>, the number the
  host gives the next terminal it creates, and the calls made so far.
  \<^verbatim>\<open>JSON.stringify\<close> of a configuration is kept as the configuration itself: two
  configurations have the same serialisation exactly when they are equal. The state is
  the one after \<^verbatim>\<open>activate\<close> has awaited \<^verbatim>\<open>loadExtension\<close>, so \<^verbatim>\<open>globalConfig\<close> is
  defined.
\<close>

record controller =
  jjuiTerminal :: "terminal option"
  globalConfig :: JJUIConfig
  globalConfigJSON :: JJUIConfig
  closeListeners :: nat
  nextTerminal :: terminal
  trace :: "effect list"

type_synonym result = "(error \<times> controller) + controller"

definition emit :: "effect \<Rightarrow> controller \<Rightarrow> controller" where
  "emit e s = s\<lparr>trace := trace s @ [e]\<rparr>"

definition executeCommand :: "string \<Rightarrow> controller \<Rightarrow> controller" where
  "executeCommand c s = emit (ExecuteCommand c) s"

definition JJUI_CONTEXT_KEY :: string where
  "JJUI_CONTEXT_KEY = ''jjuiFocus''"

subsection \<open>Config\<close>

definition getPanelBehavior :: "host \<Rightarrow> string \<Rightarrow> PanelBehavior" where
  "getPanelBehavior h panelName =
     (case configBehavior h (''panels.'' @ panelName) of
        Some b \<Rightarrow> b
      | None \<Rightarrow> if panelName = ''secondarySidebar'' then Hide else Keep)"

definition loadConfig :: "host \<Rightarrow> JJUIConfig" where
  "loadConfig h =
     \<lparr>jjuiPath = (case configString h ''jjuiPath'' of Some p \<Rightarrow> p | None \<Rightarrow> []),
      autoMaximizeWindow =
        (case configBool h ''autoMaximizeWindow'' of Some b \<Rightarrow> b | None \<Rightarrow> False),
      panels = \<lparr>sidebar = getPanelBehavior h ''sidebar'',
                panel = getPanelBehavior h ''panel'',
                secondarySidebar = getPanelBehavior h ''secondarySidebar''\<rparr>\<rparr>"

subsection \<open>Utils\<close>

text \<open>\<^verbatim>\<open>s.split(sep)[0]\<close>: the text before the first occurrence of a separator that
  is not empty.\<close>

fun splitFirst :: "string \<Rightarrow> string \<Rightarrow> string" where
  "splitFirst sep [] = []"
| "splitFirst sep (c # cs) =
     (if take (length sep) (c # cs) = sep then [] else c # splitFirst sep cs)"

text \<open>The white space and line terminators that \<^verbatim>\<open>trim\<close> removes, among the
  characters below 256.\<close>

definition isSpace :: "char \<Rightarrow> bool" where
  "isSpace c = (c \<in> set [CHR 0x09, CHR 0x0A, CHR 0x0B, CHR 0x0C, CHR 0x0D, CHR 0x20, CHR 0xA0])"

definition trim :: "string \<Rightarrow> string" where
  "trim s = rev (dropWhile isSpace (rev (dropWhile isSpace s)))"

definition findExecutableOnPath :: "host \<Rightarrow> string \<Rightarrow> error + string" where
  "findExecutableOnPath h executable =
     (let command = (if platform h = ''win32'' then ''where '' @ executable
                     else ''which '' @ executable)
      in case exec h command of
           None \<Rightarrow> Inl (Error (executable @ '' not found''))
         | Some stdout \<Rightarrow>
             Inr (trim (splitFirst [CHR 0x0A] (splitFirst [CHR 0x0D, CHR 0x0A] stdout))))"

text \<open>\<^verbatim>\<open>getWorkspaceFolder\<close> of \<^verbatim>\<open>src/extension.ts\<close>.\<close>

definition getWorkspaceFolder :: "host \<Rightarrow> string" where
  "getWorkspaceFolder h =
     (let workspaceFolder =
            (case activeTextEditor h of
               Some activeDocumentUri \<Rightarrow> folderOf h activeDocumentUri
             | None \<Rightarrow> (case workspaceFolders h of
                          None \<Rightarrow> None
                        | Some [] \<Rightarrow> None
                        | Some (f # _) \<Rightarrow> Some f))
      in case workspaceFolder of Some f \<Rightarrow> f | None \<Rightarrow> homedir h)"

text \<open>\<^verbatim>\<open>getWorkspaceFolder\<close> of the second source file. Its \<^verbatim>\<open>activeEditorUri\<close> is the
  URI of the active text editor and, without one, of the active notebook editor. An
  empty array of workspace folders is truthy, its loop finds nothing, and
  \<^verbatim>\<open>folders[0].uri\<close> then reads a property of \<^verbatim>\<open>undefined\<close>.\<close>

definition activeEditorUri :: "host \<Rightarrow> uri option" where
  "activeEditorUri h =
     (case activeTextEditor h of Some u \<Rightarrow> Some u | None \<Rightarrow> activeNotebookEditor h)"

definition getWorkspaceFolder_part000 :: "host \<Rightarrow> error + string" where
  "getWorkspaceFolder_part000 h =
     (let folder = (case activeEditorUri h of Some u \<Rightarrow> folderOf h u | None \<Rightarrow> None)
      in case folder of
           Some f \<Rightarrow> Inr f
         | None \<Rightarrow>
            (case workspaceFolders h of
               Some folders \<Rightarrow>
                 (case find (\<lambda>f. existsSync h (pathJoin h f ''.jj'')) folders of
                    Some f \<Rightarrow> Inr f
                  | None \<Rightarrow>
                     (case folders of
                        f # _ \<Rightarrow> Inr f
                      | [] \<Rightarrow> Inl (TypeError ''Cannot read properties of undefined'')))
             | None \<Rightarrow> Inr (homedir h)))"

subsection \<open>Loading\<close>

definition loadExtension :: "host \<Rightarrow> controller \<Rightarrow> controller" where
  "loadExtension h s =
     (let cfg = loadConfig h;
          s1 = s\<lparr>globalConfig := cfg, globalConfigJSON := cfg\<rparr>
      in if jjuiPath cfg \<noteq> []
         then s1\<lparr>globalConfig := cfg\<lparr>jjuiPath := expandPath (homedir h) (processEnv h) (jjuiPath cfg)\<rparr>\<rparr>
         else (case findExecutableOnPath h ''jjui'' of
                 Inr p \<Rightarrow> s1\<lparr>globalConfig := cfg\<lparr>jjuiPath := p\<rparr>\<rparr>
               | Inl _ \<Rightarrow>
                   emit (ShowErrorMessage
                     ''jjui not found on PATH. Please install it or set jjuiPath.'') s1))"

definition reloadIfConfigChange :: "host \<Rightarrow> controller \<Rightarrow> controller" where
  "reloadIfConfigChange h s =
     (if loadConfig h \<noteq> globalConfigJSON s then loadExtension h s else s)"

subsection \<open>UI logic (panels)\<close>

definition shouldKeep :: "PanelBehavior \<Rightarrow> bool" where
  "shouldKeep behavior = (behavior = Keep)"

definition shouldHide :: "PanelBehavior \<Rightarrow> bool" where
  "shouldHide behavior = (behavior = Hide \<or> behavior = HideRestore)"

definition shouldRestore :: "PanelBehavior \<Rightarrow> bool" where
  "shouldRestore behavior = (behavior = HideRestore)"

definition onShown :: "controller \<Rightarrow> controller" where
  "onShown s =
     (let cfg = globalConfig s;
          s1 = (if autoMaximizeWindow cfg
                then (let s' = executeCommand ''workbench.action.maximizeEditorHideSidebar'' s
                      in if shouldKeep (sidebar (panels cfg))
                         then executeCommand ''workbench.action.toggleSidebarVisibility'' s'
                         else s')
                else (let s' = (if shouldHide (sidebar (panels cfg))
                                then executeCommand ''workbench.action.closeSidebar'' s
                                else s)
                      in if shouldHide (secondarySidebar (panels cfg))
                         then executeCommand ''workbench.action.closeAuxiliaryBar'' s'
                         else s'))
      in if shouldHide (panel (panels cfg))
         then executeCommand ''workbench.action.closePanel'' s1
         else s1)"

definition onHide :: "controller \<Rightarrow> controller" where
  "onHide s =
     (let cfg = globalConfig s;
          s1 = (if shouldRestore (secondarySidebar (panels cfg))
                then executeCommand ''workbench.action.toggleAuxiliaryBar'' s
                else s);
          s2 = (if shouldRestore (panel (panels cfg))
                then executeCommand ''workbench.action.togglePanel'' s1
                else s1);
          s3 = (if autoMaximizeWindow cfg
                then executeCommand ''workbench.action.evenEditorWidths'' s2
                else s2)
      in emit (SetTimeout FocusActiveEditorGroup 200) s3)"

subsection \<open>Window management\<close>

definition windowFocused :: "host \<Rightarrow> controller \<Rightarrow> bool" where
  "windowFocused h s = (activeTextEditor h = None \<and> activeTerminal h = jjuiTerminal s)"

definition focusWindow :: "controller \<Rightarrow> result" where
  "focusWindow s =
     (case jjuiTerminal s of
        None \<Rightarrow> Inl (AssertionError ''Terminal undefined!'', s)
      | Some t \<Rightarrow> Inr (emit (ShowTerminal t False) s))"

definition closeWindow :: "host \<Rightarrow> controller \<Rightarrow> controller" where
  "closeWindow h s =
     (let openTabs = length (concat (tabGroups h))
      in case jjuiTerminal s of
           Some t \<Rightarrow>
             if openTabs = 1 then emit (DisposeTerminal t) s
             else executeCommand ''workbench.action.openPreviousRecentlyUsedEditorInGroup'' s
         | None \<Rightarrow>
             executeCommand ''workbench.action.openPreviousRecentlyUsedEditorInGroup'' s)"

text \<open>\<^verbatim>\<open>pollFocus\<close> of the second source file, called with \<^verbatim>\<open>focusAttempts\<close> equal
  to \<open>n\<close>.\<close>

definition pollFocus :: "host \<Rightarrow> nat \<Rightarrow> controller \<Rightarrow> controller" where
  "pollFocus h n s =
     (if activeTerminal h = jjuiTerminal s then s
      else if n < 10
      then emit (SetTimeout (PollFocus (Suc n)) 100)
             (executeCommand ''workbench.action.terminal.focus'' s)
      else s)"

text \<open>A timer fires.\<close>

fun runCallback :: "host \<Rightarrow> callback \<Rightarrow> controller \<Rightarrow> controller" where
  "runCallback h RefocusTerminal s =
     (case jjuiTerminal s of
        Some t \<Rightarrow> executeCommand ''workbench.action.terminal.focus'' (emit (ShowTerminal t False) s)
      | None \<Rightarrow> s)"
| "runCallback h (PollFocus n) s = pollFocus h n s"
| "runCallback h FocusActiveEditorGroup s =
     executeCommand ''workbench.action.focusActiveEditorGroup'' s"

text \<open>\<^verbatim>\<open>createWindow\<close> of \<^verbatim>\<open>src/extension.ts\<close>.\<close>

definition createWindow :: "host \<Rightarrow> controller \<Rightarrow> result" where
  "createWindow h s =
     (let s1 = reloadIfConfigChange h s;
          workspaceFolder = getWorkspaceFolder h
      in if jjuiPath (globalConfig s1) = []
         then Inl (AssertionError ''jjui path is undefined!'', s1)
         else
          (let t = nextTerminal s1;
               s2 = emit (CreateTerminal t
                      \<lparr>name = ''jjui'', cwd = workspaceFolder, location = Editor,
                       shellPath = None, shellArgs = None\<rparr>)
                      (s1\<lparr>jjuiTerminal := Some t, nextTerminal := Suc t\<rparr>);
               exitSuffix = (if platform h = ''win32'' then ''; exit'' else '' && exit'');
               s3 = emit (SendText t (jjuiPath (globalConfig s2) @ exitSuffix)) s2;
               s4 = emit (ShowTerminal t False) s3;
               s5 = emit (SetTimeout RefocusTerminal 100) s4
           in Inr (s5\<lparr>closeListeners := Suc (closeListeners s5)\<rparr>)))"

text \<open>\<^verbatim>\<open>createWindow\<close> of the second source file.\<close>

definition createWindow_part000 :: "host \<Rightarrow> controller \<Rightarrow> result" where
  "createWindow_part000 h s =
     (let s1 = reloadIfConfigChange h s
      in case getWorkspaceFolder_part000 h of
           Inl e \<Rightarrow> Inl (e, s1)
         | Inr workspaceFolder \<Rightarrow>
          (let isWin = (platform h = ''win32'');
               t = nextTerminal s1;
               s2 = emit (CreateTerminal t
                      \<lparr>name = ''jjui'', cwd = workspaceFolder, location = Editor,
                       shellPath = Some (if isWin then ''powershell.exe'' else ''/bin/bash''),
                       shellArgs = Some (if isWin
                         then [''-Command'', jjuiPath (globalConfig s1) @ ''; exit'']
                         else [''-c'', jjuiPath (globalConfig s1) @ '' && exit''])\<rparr>)
                      (s1\<lparr>jjuiTerminal := Some t, nextTerminal := Suc t\<rparr>);
               s3 = emit (ShowTerminal t False) s2;
               s4 = pollFocus h 0 s3
           in Inr (s4\<lparr>closeListeners := Suc (closeListeners s4)\<rparr>)))"

subsection \<open>Events\<close>

text \<open>\<^verbatim>\<open>toggleJJUI\<close>, the same in both source files but for the \<^verbatim>\<open>createWindow\<close> it
  calls.\<close>

definition toggleWith :: "(host \<Rightarrow> controller \<Rightarrow> result) \<Rightarrow> host \<Rightarrow> controller \<Rightarrow> result" where
  "toggleWith create h s =
     (if jjuiTerminal s \<noteq> None
      then (if windowFocused h s
            then Inr (onHide (closeWindow h s))
            else (case focusWindow s of
                    Inl err \<Rightarrow> Inl err
                  | Inr s' \<Rightarrow> Inr (onShown s')))
      else (case create h s of
              Inl err \<Rightarrow> Inl err
            | Inr s' \<Rightarrow> Inr (onShown s')))"

definition toggleJJUI :: "host \<Rightarrow> controller \<Rightarrow> result" where
  "toggleJJUI = toggleWith createWindow"

definition toggleJJUI_part000 :: "host \<Rightarrow> controller \<Rightarrow> result" where
  "toggleJJUI_part000 = toggleWith createWindow_part000"

definition updateFocusContext :: "host \<Rightarrow> controller \<Rightarrow> controller" where
  "updateFocusContext h s = emit (SetContext JJUI_CONTEXT_KEY (windowFocused h s)) s"

text \<open>One listener registered with \<^verbatim>\<open>onDidCloseTerminal\<close>, called with the terminal
  that closed.\<close>

definition closeListener :: "terminal \<Rightarrow> controller \<Rightarrow> controller" where
  "closeListener t s =
     (if Some t = jjuiTerminal s then onHide (s\<lparr>jjuiTerminal := None\<rparr>) else s)"

text \<open>The host reports that a terminal closed: every registered listener is called,
  one after the other.\<close>

definition onDidCloseTerminal :: "terminal \<Rightarrow> controller \<Rightarrow> controller" where
  "onDidCloseTerminal t s = (closeListener t ^^ closeListeners s) s"

text \<open>A controller that holds a session has a listener for its closure.\<close>

definition listening :: "controller \<Rightarrow> bool" where
  "listening s = (jjuiTerminal s = None \<or> 0 < closeListeners s)"

section \<open>Example hosts and controllers\<close>

text \<open>A host with two workspace folders, the second of which holds the marker
  directory, with nothing active, no setting changed and no \<^verbatim>\<open>jjui\<close> on the PATH.\<close>

definition exampleHost :: host where
  "exampleHost =
     \<lparr>activeTextEditor = None, activeNotebookEditor = None, activeTerminal = None,
      tabGroups = [[0]], workspaceFolders = Some [''/a'', ''/b''],
      folderOf = (\<lambda>_. None), pathJoin = (\<lambda>a b. a @ ''/'' @ b),
      existsSync = (\<lambda>p. p = ''/b/.jj''), homedir = ''/home/u'',
      processEnv = (\<lambda>_. None), platform = ''linux'', exec = (\<lambda>_. None),
      configString = (\<lambda>_. None), configBool = (\<lambda>_. None),
      configBehavior = (\<lambda>_. None)\<rparr>"

text \<open>The same host with \<^verbatim>\<open>jjuiPath\<close> set.\<close>

definition configuredHost :: host where
  "configuredHost =
     exampleHost\<lparr>configString := (\<lambda>k. if k = ''jjuiPath'' then Some ''~/bin/jjui'' else None)\<rparr>"

text \<open>The same host with terminal 1 active.\<close>

definition focusedHost :: host where
  "focusedHost = exampleHost\<lparr>activeTerminal := Some 1\<rparr>"

text \<open>The controller after loading on \<open>exampleHost\<close>, with no session.\<close>

definition closedController :: controller where
  "closedController =
     \<lparr>jjuiTerminal = None,
      globalConfig = \<lparr>jjuiPath = [], autoMaximizeWindow = False,
        panels = \<lparr>sidebar = Keep, panel = Keep, secondarySidebar = Hide\<rparr>\<rparr>,
      globalConfigJSON = \<lparr>jjuiPath = [], autoMaximizeWindow = False,
        panels = \<lparr>sidebar = Keep, panel = Keep, secondarySidebar = Hide\<rparr>\<rparr>,
      closeListeners = 0, nextTerminal = 0, trace = []\<rparr>"

text \<open>A controller whose second session, terminal 1, is open.\<close>

definition sessionController :: controller where
  "sessionController =
     \<lparr>jjuiTerminal = Some 1,
      globalConfig = \<lparr>jjuiPath = ''/usr/bin/jjui'', autoMaximizeWindow = True,
        panels = \<lparr>sidebar = Keep, panel = HideRestore, secondarySidebar = HideRestore\<rparr>\<rparr>,
      globalConfigJSON = \<lparr>jjuiPath = [], autoMaximizeWindow = True,
        panels = \<lparr>sidebar = Keep, panel = HideRestore, secondarySidebar = HideRestore\<rparr>\<rparr>,
      closeListeners = 2, nextTerminal = 2, trace = []\<rparr>"

text \<open>An environment in which only \<^verbatim>\<open>FOO\<close> is set.\<close>

definition exampleEnv :: environment where
  "exampleEnv = (\<lambda>n. if n = ''FOO'' then Some ''/opt'' else None)"

section \<open>Properties of path expansion\<close>

lemma not_isWord_dollar: "\<not> isWord (CHR ''$'')"
  by (simp add: isWord_def)

lemma takeWhile_stop: "\<not> P y \<Longrightarrow> takeWhile P (xs @ y # ys) = takeWhile P xs"
  by (induction xs) auto

lemma dropWhile_stop: "\<not> P y \<Longrightarrow> dropWhile P (xs @ y # ys) = dropWhile P xs @ y # ys"
  by (induction xs) auto

lemma takeWhile_run: "\<forall>c\<in>set n. P c \<Longrightarrow> takeWhile P r = [] \<Longrightarrow> takeWhile P (n @ r) = n"
  by (induction n) auto

text \<open>A variable of the dollar step is replaced by its value, and the text on both
  sides of it is expanded on its own.\<close>

lemma replaceDollar_variable:
  assumes "var \<noteq> []" and "\<forall>c\<in>set var. isWord c" and "takeWhile isWord rest = []"
  shows "replaceDollar env (pre @ CHR ''$'' # var @ rest)
         = replaceDollar env pre @ envOrEmpty env var @ replaceDollar env rest"
proof (induction env pre rule: replaceDollar.induct)
  case (1 env)
  have "dropWhile isWord rest = rest"
    using takeWhile_dropWhile_id [of isWord rest] assms(3) by simp
  then show ?case using assms by (simp add: takeWhile_run)
next
  case (2 env c cs)
  show ?case
  proof (cases "c = CHR ''$'' \<and> takeWhile isWord cs \<noteq> []")
    case True
    then show ?thesis using 2(1)
      by (simp add: takeWhile_stop dropWhile_stop not_isWord_dollar)
  next
    case False
    then show ?thesis using 2(2)
      by (auto simp add: takeWhile_stop dropWhile_stop not_isWord_dollar)
  qed
qed

lemma replacePercent_literal:
  "CHR ''%'' \<notin> set pre \<Longrightarrow> replacePercent env (pre @ s) = pre @ replacePercent env s"
  by (induction pre) auto

lemma replacePercent_token_head:
  assumes "var \<noteq> []" and "CHR ''%'' \<notin> set var"
  shows "replacePercent env (CHR ''%'' # var @ CHR ''%'' # rest)
         = envOrEmpty env var @ replacePercent env rest"
proof -
  have t: "takeWhile (\<lambda>x. x \<noteq> CHR ''%'') (var @ CHR ''%'' # rest) = var"
    using assms(2) by (induction var) auto
  have d: "dropWhile (\<lambda>x. x \<noteq> CHR ''%'') (var @ CHR ''%'' # rest) = CHR ''%'' # rest"
    using assms(2) by (induction var) auto
  show ?thesis using assms(1) by (simp add: t d)
qed

text \<open>
  With the home directory \<^verbatim>\<open>/home/u\<close>, \<^verbatim>\<open>~/tools/jjui\<close> expands to
  \<^verbatim>\<open>/home/u/tools/jjui\<close>; in an environment where \<^verbatim>\<open>FOO\<close> is \<^verbatim>\<open>/opt\<close>, \<^verbatim>\<open>$FOO/bin\<close>
  expands to \<^verbatim>\<open>/opt/bin\<close>; and a dollar variable met by the dollar step (a dollar sign
  with the longest run \<open>var\<close> of word characters after it) that is not set in the
  environment and is not the name of an inherited property is replaced by the empty
  string: what is left is the expansion of the text before it followed by the expansion
  of the text after it.
\<close>

lemma expandPath_tilde_dollar:
  "expandPath ''/home/u'' env ''~/tools/jjui'' = ''/home/u/tools/jjui''
   \<and> (env ''FOO'' = Some ''/opt'' \<longrightarrow> expandPath home env ''$FOO/bin'' = ''/opt/bin'')
   \<and> (replacePercent env (replaceTilde home pth) = pre @ CHR ''$'' # var @ rest
        \<and> var \<noteq> [] \<and> (\<forall>c\<in>set var. isWord c) \<and> takeWhile isWord rest = []
        \<and> env var = None \<and> objectPrototype var = None
      \<longrightarrow> expandPath home env pth = replaceDollar env pre @ replaceDollar env rest)"
proof (intro conjI impI)
  show "expandPath ''/home/u'' env ''~/tools/jjui'' = ''/home/u/tools/jjui''"
    by (simp add: expandPath_def)
next
  assume "env ''FOO'' = Some ''/opt''"
  then show "expandPath home env ''$FOO/bin'' = ''/opt/bin''"
    by (simp add: expandPath_def isWord_def envOrEmpty_def processEnvGet_def)
next
  assume a: "replacePercent env (replaceTilde home pth) = pre @ CHR ''$'' # var @ rest
        \<and> var \<noteq> [] \<and> (\<forall>c\<in>set var. isWord c) \<and> takeWhile isWord rest = []
        \<and> env var = None \<and> objectPrototype var = None"
  then have "replaceDollar env (pre @ CHR ''$'' # var @ rest)
      = replaceDollar env pre @ envOrEmpty env var @ replaceDollar env rest"
    by (intro replaceDollar_variable) simp_all
  with a show "expandPath home env pth = replaceDollar env pre @ replaceDollar env rest"
    by (simp add: expandPath_def envOrEmpty_def processEnvGet_def)
qed

lemma expandPath_tilde_dollar_example:
  "expandPath ''/home/u'' exampleEnv ''~/tools/jjui'' = ''/home/u/tools/jjui''
   \<and> expandPath ''/home/u'' exampleEnv ''$FOO/bin'' = ''/opt/bin''
   \<and> expandPath ''/home/u'' exampleEnv ''a$BAR/b$FOO'' = ''a/b/opt''"
  using expandPath_tilde_dollar [where env = exampleEnv and home = "''/home/u''"
      and pth = "''a$BAR/b$FOO''" and pre = "''a''" and var = "''BAR''" and rest = "''/b$FOO''"]
  by (simp add: isWord_def envOrEmpty_def processEnvGet_def objectPrototype_def exampleEnv_def)


text \<open>
  The percent step runs on the result of the home-directory step and the dollar step
  runs on the result of the percent step. A token of the percent step (a percent sign, a
  run \<open>var\<close> of other characters that is not empty, and a closing percent sign, with no
  percent sign before it) is replaced by what the lookup of \<open>var\<close> gives: the value of the
  environment variable \<open>var\<close>, and when \<open>var\<close> is not set and not the name of an inherited
  property, the empty string. The rest of the string is scanned for further tokens in
  the same way, and only then are dollar variables expanded, in the replaced text as
  well.
\<close>

lemma expandPath_percent_first:
  "replaceTilde home pth = pre @ CHR ''%'' # var @ CHR ''%'' # rest
     \<and> CHR ''%'' \<notin> set pre \<and> var \<noteq> [] \<and> CHR ''%'' \<notin> set var
   \<longrightarrow> expandPath home env pth
         = replaceDollar env (pre @ envOrEmpty env var @ replacePercent env rest)
       \<and> (objectPrototype var = None
           \<longrightarrow> envOrEmpty env var = (case env var of None \<Rightarrow> [] | Some v \<Rightarrow> v))"
proof (intro impI conjI)
  assume a: "replaceTilde home pth = pre @ CHR ''%'' # var @ CHR ''%'' # rest
     \<and> CHR ''%'' \<notin> set pre \<and> var \<noteq> [] \<and> CHR ''%'' \<notin> set var"
  have "replacePercent env (pre @ CHR ''%'' # var @ CHR ''%'' # rest)
      = pre @ replacePercent env (CHR ''%'' # var @ CHR ''%'' # rest)"
    using a by (intro replacePercent_literal) simp
  also have "replacePercent env (CHR ''%'' # var @ CHR ''%'' # rest)
      = envOrEmpty env var @ replacePercent env rest"
    using a by (intro replacePercent_token_head) simp_all
  finally have "replacePercent env (pre @ CHR ''%'' # var @ CHR ''%'' # rest)
      = pre @ envOrEmpty env var @ replacePercent env rest" .
  with a show "expandPath home env pth
         = replaceDollar env (pre @ envOrEmpty env var @ replacePercent env rest)"
    by (simp add: expandPath_def)
next
  assume "objectPrototype var = None"
  then show "envOrEmpty env var = (case env var of None \<Rightarrow> [] | Some v \<Rightarrow> v)"
    by (simp add: envOrEmpty_def processEnvGet_def split: option.splits)
qed

lemma expandPath_percent_first_example:
  "expandPath ''/home/u'' [''A'' \<mapsto> ''$B'', ''B'' \<mapsto> ''/x''] ''p%A%/q%C%'' = ''p/x/q''"
  using expandPath_percent_first [where env = "[''A'' \<mapsto> ''$B'', ''B'' \<mapsto> ''/x'']"
      and home = "''/home/u''" and pth = "''p%A%/q%C%''" and pre = "''p''" and var = "''A''"
      and rest = "''/q%C%''"]
  by (simp add: isWord_def envOrEmpty_def processEnvGet_def objectPrototype_def)

text \<open>
  C10. The percent tokens are expanded before the dollar variables: where \<^verbatim>\<open>A\<close> is
  \<^verbatim>\<open>$B\<close> and \<^verbatim>\<open>B\<close> is \<^verbatim>\<open>/x\<close>, \<^verbatim>\<open>%A%\<close> expands to \<^verbatim>\<open>/x\<close>. A token whose name is unset
  is not always replaced by the empty string: in an environment where \<^verbatim>\<open>toString\<close> is
  not set, \<^verbatim>\<open>%toString%\<close> expands to the text of the function that \<^verbatim>\<open>process.env\<close>
  inherits under that name.
\<close>

theorem expandPath_percent_inherited:
  "expandPath ''/home/u'' (exampleEnv(''A'' := Some ''$B'', ''B'' := Some ''/x'')) ''%A%'' = ''/x''
   \<and> exampleEnv ''toString'' = None
   \<and> expandPath ''/home/u'' exampleEnv ''%toString%''
       = ''function toString() { [native code] }''"
  by (simp add: expandPath_def isWord_def envOrEmpty_def processEnvGet_def objectPrototype_def
      exampleEnv_def)

section \<open>Properties of the controller\<close>

lemma onHide_fields:
  "jjuiTerminal (onHide s) = jjuiTerminal s" "closeListeners (onHide s) = closeListeners s"
  "globalConfig (onHide s) = globalConfig s" "nextTerminal (onHide s) = nextTerminal s"
  by (simp_all add: onHide_def executeCommand_def emit_def Let_def)

lemma onShown_fields:
  "jjuiTerminal (onShown s) = jjuiTerminal s" "closeListeners (onShown s) = closeListeners s"
  "globalConfig (onShown s) = globalConfig s" "nextTerminal (onShown s) = nextTerminal s"
  by (simp_all add: onShown_def executeCommand_def emit_def Let_def)

lemma onHide_once:
  "length (filter (\<lambda>e. e = SetTimeout FocusActiveEditorGroup 200)
     (drop (length (trace s)) (trace (onHide s)))) = 1"
  by (simp add: onHide_def executeCommand_def emit_def Let_def)

lemma loadExtension_fields:
  "jjuiTerminal (loadExtension h s) = jjuiTerminal s"
  "closeListeners (loadExtension h s) = closeListeners s"
  "nextTerminal (loadExtension h s) = nextTerminal s"
  by (simp_all add: loadExtension_def Let_def emit_def split: sum.splits)

lemma reloadIfConfigChange_fields:
  "jjuiTerminal (reloadIfConfigChange h s) = jjuiTerminal s"
  "closeListeners (reloadIfConfigChange h s) = closeListeners s"
  "nextTerminal (reloadIfConfigChange h s) = nextTerminal s"
  by (simp_all add: reloadIfConfigChange_def loadExtension_fields)

text \<open>The message of a failed lookup.\<close>

lemma loadExtension_not_found:
  assumes "jjuiPath (loadConfig h) = []" and "findExecutableOnPath h ''jjui'' = Inl e"
  shows "loadExtension h s =
           s\<lparr>globalConfig := loadConfig h, globalConfigJSON := loadConfig h,
             trace := trace s @
               [ShowErrorMessage ''jjui not found on PATH. Please install it or set jjuiPath.'']\<rparr>"
  using assms by (simp add: loadExtension_def Let_def emit_def)

lemma createWindow_created:
  assumes "jjuiPath (globalConfig (reloadIfConfigChange h s)) \<noteq> []"
  shows "\<exists>s'. createWindow h s = Inr s' \<and> jjuiTerminal s' = Some (nextTerminal s)
            \<and> closeListeners s' = Suc (closeListeners s)
            \<and> (\<exists>opts. CreateTerminal (nextTerminal s) opts \<in> set (trace s'))"
  using assms
  by (auto simp add: createWindow_def Let_def emit_def reloadIfConfigChange_fields)

lemma createWindow_part000_created:
  assumes "getWorkspaceFolder_part000 h = Inr d"
  shows "\<exists>s'. createWindow_part000 h s = Inr s' \<and> jjuiTerminal s' = Some (nextTerminal s)
            \<and> closeListeners s' = Suc (closeListeners s)
            \<and> (\<exists>opts. CreateTerminal (nextTerminal s) opts \<in> set (trace s'))"
  using assms
  by (auto simp add: createWindow_part000_def Let_def emit_def executeCommand_def pollFocus_def
        reloadIfConfigChange_fields)

lemma closeWindow_fields:
  "jjuiTerminal (closeWindow h s) = jjuiTerminal s"
  "closeListeners (closeWindow h s) = closeListeners s"
  by (simp_all add: closeWindow_def emit_def executeCommand_def split: option.splits)

lemma listening_toggleJJUI:
  assumes "listening s" and "toggleJJUI h s = Inr s'"
  shows "listening s'"
proof (cases "jjuiTerminal s")
  case None
  then show ?thesis using assms(2)
    by (auto simp add: toggleJJUI_def toggleWith_def createWindow_def Let_def emit_def
        listening_def onShown_fields split: if_splits)
next
  case (Some t)
  then show ?thesis using assms
    by (auto simp add: toggleJJUI_def toggleWith_def focusWindow_def emit_def listening_def
        onShown_fields onHide_fields closeWindow_fields split: if_splits)
qed

lemma listening_toggleJJUI_part000:
  assumes "listening s" and "toggleJJUI_part000 h s = Inr s'"
  shows "listening s'"
proof (cases "jjuiTerminal s")
  case None
  then show ?thesis using assms(2)
    by (auto simp add: toggleJJUI_part000_def toggleWith_def createWindow_part000_def Let_def
        emit_def executeCommand_def pollFocus_def listening_def onShown_fields
        split: if_splits sum.splits)
next
  case (Some t)
  then show ?thesis using assms
    by (auto simp add: toggleJJUI_part000_def toggleWith_def focusWindow_def emit_def
        listening_def onShown_fields onHide_fields closeWindow_fields split: if_splits)
qed

text \<open>A toggle that stops at an error leaves a controller that is listening as well.\<close>

lemma listening_toggleJJUI_error:
  assumes "listening s" and "toggleJJUI h s = Inl (e, s')"
  shows "listening s'"
  using assms
  by (auto simp add: toggleJJUI_def toggleWith_def createWindow_def focusWindow_def Let_def
      listening_def reloadIfConfigChange_fields split: if_splits option.splits)

lemma listening_toggleJJUI_part000_error:
  assumes "listening s" and "toggleJJUI_part000 h s = Inl (e, s')"
  shows "listening s'"
  using assms
  by (auto simp add: toggleJJUI_part000_def toggleWith_def createWindow_part000_def
      focusWindow_def Let_def listening_def reloadIfConfigChange_fields
      split: if_splits option.splits sum.splits)

lemma closeListener_cleared: "jjuiTerminal s = None \<Longrightarrow> (closeListener t ^^ n) s = s"
  by (induction n) (simp_all add: closeListener_def)

lemma closeListener_other: "jjuiTerminal s \<noteq> Some t \<Longrightarrow> (closeListener t ^^ n) s = s"
  by (induction n) (auto simp add: closeListener_def)

lemma closeListeners_fire:
  assumes "jjuiTerminal s = Some t" and "0 < closeListeners s"
  shows "onDidCloseTerminal t s = onHide (s\<lparr>jjuiTerminal := None\<rparr>)"
proof -
  obtain n where n: "closeListeners s = Suc n"
    using assms(2) by (cases "closeListeners s") auto
  have "(closeListener t ^^ Suc n) s = (closeListener t ^^ n) (closeListener t s)"
    by (simp add: funpow_swap1)
  also have "closeListener t s = onHide (s\<lparr>jjuiTerminal := None\<rparr>)"
    using assms(1) by (simp add: closeListener_def)
  also have "(closeListener t ^^ n) (onHide (s\<lparr>jjuiTerminal := None\<rparr>))
      = onHide (s\<lparr>jjuiTerminal := None\<rparr>)"
    by (rule closeListener_cleared) (simp add: onHide_fields)
  finally show ?thesis by (simp add: onDidCloseTerminal_def n)
qed

lemma listening_onDidCloseTerminal:
  assumes "listening s"
  shows "listening (onDidCloseTerminal t s)"
proof (cases "jjuiTerminal s = Some t")
  case True
  then have "0 < closeListeners s" using assms by (simp add: listening_def)
  then show ?thesis using True
    by (simp add: closeListeners_fire listening_def onHide_fields)
next
  case False
  then show ?thesis using assms
    by (simp add: onDidCloseTerminal_def closeListener_other)
qed

lemma find_first: "\<forall>g\<in>set fs. \<not> P g \<Longrightarrow> P f \<Longrightarrow> find P (fs @ f # gs) = Some f"
  by (induction fs) auto

text \<open>
  C1 (amended). For every invocation of the toggle command: if no session handle exists
  and the executable path is not empty after the configuration was reloaded (and, in the
  second source file, the working directory resolves), a new session is created on a
  fresh terminal and the on-shown adjustments are applied; if a session exists and is
  focused (no text editor is active and the host's active terminal is the stored
  session), the window is hidden and the on-hidden adjustments are applied; if a session
  exists and is not focused, the stored session is shown and the on-shown adjustments
  are applied.
\<close>

theorem toggleJJUI_cases:
  "(jjuiTerminal s = None \<and> jjuiPath (globalConfig (reloadIfConfigChange h s)) \<noteq> []
      \<longrightarrow> (\<exists>s'. createWindow h s = Inr s' \<and> jjuiTerminal s' = Some (nextTerminal s)
                \<and> (\<exists>opts. CreateTerminal (nextTerminal s) opts \<in> set (trace s'))
                \<and> toggleJJUI h s = Inr (onShown s')))
   \<and> (jjuiTerminal s = None \<and> jjuiPath (globalConfig (reloadIfConfigChange h s)) \<noteq> []
        \<and> getWorkspaceFolder_part000 h = Inr d
      \<longrightarrow> (\<exists>s'. createWindow_part000 h s = Inr s' \<and> jjuiTerminal s' = Some (nextTerminal s)
                \<and> (\<exists>opts. CreateTerminal (nextTerminal s) opts \<in> set (trace s'))
                \<and> toggleJJUI_part000 h s = Inr (onShown s')))
   \<and> (jjuiTerminal s = Some t \<and> activeTextEditor h = None \<and> activeTerminal h = Some t
      \<longrightarrow> toggleJJUI h s = Inr (onHide (closeWindow h s))
          \<and> toggleJJUI_part000 h s = Inr (onHide (closeWindow h s)))
   \<and> (jjuiTerminal s = Some t \<and> \<not> (activeTextEditor h = None \<and> activeTerminal h = Some t)
      \<longrightarrow> toggleJJUI h s = Inr (onShown (s\<lparr>trace := trace s @ [ShowTerminal t False]\<rparr>))
          \<and> toggleJJUI_part000 h s
              = Inr (onShown (s\<lparr>trace := trace s @ [ShowTerminal t False]\<rparr>)))"
proof (intro conjI impI)
  assume a: "jjuiTerminal s = None \<and> jjuiPath (globalConfig (reloadIfConfigChange h s)) \<noteq> []"
  then obtain s' where s': "createWindow h s = Inr s'" "jjuiTerminal s' = Some (nextTerminal s)"
      "\<exists>opts. CreateTerminal (nextTerminal s) opts \<in> set (trace s')"
    using createWindow_created [of h s] by blast
  moreover have "toggleJJUI h s = Inr (onShown s')"
    using a s'(1) by (simp add: toggleJJUI_def toggleWith_def)
  ultimately show "\<exists>s'. createWindow h s = Inr s' \<and> jjuiTerminal s' = Some (nextTerminal s)
                \<and> (\<exists>opts. CreateTerminal (nextTerminal s) opts \<in> set (trace s'))
                \<and> toggleJJUI h s = Inr (onShown s')"
    by blast
next
  assume a: "jjuiTerminal s = None \<and> jjuiPath (globalConfig (reloadIfConfigChange h s)) \<noteq> []
        \<and> getWorkspaceFolder_part000 h = Inr d"
  then obtain s' where s': "createWindow_part000 h s = Inr s'"
      "jjuiTerminal s' = Some (nextTerminal s)"
      "\<exists>opts. CreateTerminal (nextTerminal s) opts \<in> set (trace s')"
    using createWindow_part000_created [of h d s] by blast
  moreover have "toggleJJUI_part000 h s = Inr (onShown s')"
    using a s'(1) by (simp add: toggleJJUI_part000_def toggleWith_def)
  ultimately show "\<exists>s'. createWindow_part000 h s = Inr s'
                \<and> jjuiTerminal s' = Some (nextTerminal s)
                \<and> (\<exists>opts. CreateTerminal (nextTerminal s) opts \<in> set (trace s'))
                \<and> toggleJJUI_part000 h s = Inr (onShown s')"
    by blast
next
  assume a: "jjuiTerminal s = Some t \<and> activeTextEditor h = None \<and> activeTerminal h = Some t"
  then show "toggleJJUI h s = Inr (onHide (closeWindow h s))"
    by (simp add: toggleJJUI_def toggleWith_def windowFocused_def)
  from a show "toggleJJUI_part000 h s = Inr (onHide (closeWindow h s))"
    by (simp add: toggleJJUI_part000_def toggleWith_def windowFocused_def)
next
  assume a: "jjuiTerminal s = Some t \<and> \<not> (activeTextEditor h = None \<and> activeTerminal h = Some t)"
  then show "toggleJJUI h s = Inr (onShown (s\<lparr>trace := trace s @ [ShowTerminal t False]\<rparr>))"
    by (auto simp add: toggleJJUI_def toggleWith_def windowFocused_def focusWindow_def emit_def)
  from a show "toggleJJUI_part000 h s
      = Inr (onShown (s\<lparr>trace := trace s @ [ShowTerminal t False]\<rparr>))"
    by (auto simp add: toggleJJUI_part000_def toggleWith_def windowFocused_def focusWindow_def
        emit_def)
qed


theorem toggleJJUI_cases_witness:
  "(\<exists>s'. toggleJJUI configuredHost closedController = Inr (onShown s')
         \<and> jjuiTerminal s' = Some 0)
   \<and> (\<exists>s'. toggleJJUI_part000 configuredHost closedController = Inr (onShown s')
         \<and> jjuiTerminal s' = Some 0)
   \<and> toggleJJUI focusedHost sessionController
       = Inr (onHide (closeWindow focusedHost sessionController))
   \<and> toggleJJUI exampleHost sessionController
       = Inr (onShown (sessionController\<lparr>trace := [ShowTerminal 1 False]\<rparr>))"
proof -
  have p: "jjuiPath (globalConfig (reloadIfConfigChange configuredHost closedController)) \<noteq> []"
    by (simp add: reloadIfConfigChange_def loadExtension_def loadConfig_def getPanelBehavior_def
        configuredHost_def exampleHost_def closedController_def expandPath_def Let_def)
  have d: "getWorkspaceFolder_part000 configuredHost = Inr ''/b''"
    by (simp add: getWorkspaceFolder_part000_def activeEditorUri_def configuredHost_def
        exampleHost_def)
  have n: "jjuiTerminal closedController = None" "nextTerminal closedController = 0"
    by (simp_all add: closedController_def)
  have t: "jjuiTerminal sessionController = Some 1" "trace sessionController = []"
    by (simp_all add: sessionController_def)
  have f: "activeTextEditor focusedHost = None" "activeTerminal focusedHost = Some 1"
      "activeTerminal exampleHost = None"
    by (simp_all add: focusedHost_def exampleHost_def)
  show ?thesis
    using toggleJJUI_cases [where s = closedController and h = configuredHost and d = "''/b''"]
      toggleJJUI_cases [where s = sessionController and h = focusedHost and t = 1]
      toggleJJUI_cases [where s = sessionController and h = exampleHost and t = 1]
      p d n t f
    by auto
qed

theorem toggleJJUI_closed_counterexample:
  "jjuiTerminal closedController = None
   \<and> toggleJJUI exampleHost closedController
       = Inl (AssertionError ''jjui path is undefined!'', closedController)"
  by (simp add: toggleJJUI_def toggleWith_def createWindow_def reloadIfConfigChange_def
      loadConfig_def getPanelBehavior_def exampleHost_def closedController_def Let_def)

text \<open>
  When the executable path is not configured and the PATH lookup fails, loading the
  configuration shows the message once, leaves the path empty and returns. A toggle with
  no session and an empty path then, in \<^verbatim>\<open>src/extension.ts\<close>, stops at the assertion of
  \<^verbatim>\<open>createWindow\<close>: no session is created, and the only call made to the host is the
  message, shown again when the settings differ from the cached ones.
\<close>

lemma executable_not_found:
  "jjuiPath (loadConfig h) = [] \<and> findExecutableOnPath h ''jjui'' = Inl e \<longrightarrow>
     loadExtension h s =
       s\<lparr>globalConfig := loadConfig h, globalConfigJSON := loadConfig h,
         trace := trace s @
           [ShowErrorMessage ''jjui not found on PATH. Please install it or set jjuiPath.'']\<rparr>
     \<and> (jjuiTerminal s = None \<and> jjuiPath (globalConfig s) = [] \<longrightarrow>
          toggleJJUI h s
            = Inl (AssertionError ''jjui path is undefined!'', reloadIfConfigChange h s)
          \<and> jjuiTerminal (reloadIfConfigChange h s) = None
          \<and> trace (reloadIfConfigChange h s) = trace s @
               (if loadConfig h \<noteq> globalConfigJSON s
                then [ShowErrorMessage
                        ''jjui not found on PATH. Please install it or set jjuiPath.'']
                else []))"
proof (intro impI conjI)
  assume a: "jjuiPath (loadConfig h) = [] \<and> findExecutableOnPath h ''jjui'' = Inl e"
  then show l: "loadExtension h s =
       s\<lparr>globalConfig := loadConfig h, globalConfigJSON := loadConfig h,
         trace := trace s @
           [ShowErrorMessage ''jjui not found on PATH. Please install it or set jjuiPath.'']\<rparr>"
    by (simp add: loadExtension_not_found)
  assume b: "jjuiTerminal s = None \<and> jjuiPath (globalConfig s) = []"
  have "jjuiPath (globalConfig (reloadIfConfigChange h s)) = []"
    using a b by (simp add: reloadIfConfigChange_def l)
  then show "toggleJJUI h s
      = Inl (AssertionError ''jjui path is undefined!'', reloadIfConfigChange h s)"
    using b by (simp add: toggleJJUI_def toggleWith_def createWindow_def Let_def)
  show "jjuiTerminal (reloadIfConfigChange h s) = None"
    using b by (simp add: reloadIfConfigChange_fields)
  show "trace (reloadIfConfigChange h s) = trace s @
               (if loadConfig h \<noteq> globalConfigJSON s
                then [ShowErrorMessage
                        ''jjui not found on PATH. Please install it or set jjuiPath.'']
                else [])"
    by (simp add: reloadIfConfigChange_def l)
qed

lemma executable_not_found_example:
  "loadExtension exampleHost closedController
     = closedController\<lparr>trace :=
         [ShowErrorMessage ''jjui not found on PATH. Please install it or set jjuiPath.'']\<rparr>
   \<and> toggleJJUI exampleHost (closedController\<lparr>trace :=
         [ShowErrorMessage ''jjui not found on PATH. Please install it or set jjuiPath.'']\<rparr>)
       = Inl (AssertionError ''jjui path is undefined!'', closedController\<lparr>trace :=
         [ShowErrorMessage ''jjui not found on PATH. Please install it or set jjuiPath.'']\<rparr>)"
proof -
  have c: "loadConfig exampleHost = globalConfig closedController"
      "globalConfigJSON closedController = globalConfig closedController"
      "jjuiPath (globalConfig closedController) = []" "jjuiTerminal closedController = None"
      "trace closedController = []"
    by (simp_all add: loadConfig_def getPanelBehavior_def exampleHost_def closedController_def)
  have e: "findExecutableOnPath exampleHost ''jjui'' = Inl (Error ''jjui not found'')"
    by (simp add: findExecutableOnPath_def exampleHost_def)
  show ?thesis
    using executable_not_found [where h = exampleHost and s = closedController
        and e = "Error ''jjui not found''"]
      executable_not_found [where h = exampleHost and e = "Error ''jjui not found''"
        and s = "closedController\<lparr>trace :=
         [ShowErrorMessage ''jjui not found on PATH. Please install it or set jjuiPath.'']\<rparr>"]
      c e
    by (simp add: reloadIfConfigChange_def closedController_def)
qed

text \<open>
  C2. The second source file has no such assertion. On a host where the path is not
  configured and the PATH lookup fails, loading shows the message, and the next toggle
  still creates a session: a terminal whose shell command is the empty path followed by
  \<^verbatim>\<open> && exit\<close>.
\<close>

theorem toggleJJUI_part000_not_found:
  "configString exampleHost ''jjuiPath'' = None
   \<and> findExecutableOnPath exampleHost ''jjui'' = Inl (Error ''jjui not found'')
   \<and> jjuiTerminal (loadExtension exampleHost closedController) = None
   \<and> toggleJJUI_part000 exampleHost (loadExtension exampleHost closedController)
       = Inr (closedController\<lparr>jjuiTerminal := Some 0, closeListeners := 1, nextTerminal := 1,
           trace := [ShowErrorMessage
                       ''jjui not found on PATH. Please install it or set jjuiPath.'',
                     CreateTerminal 0 \<lparr>name = ''jjui'', cwd = ''/b'', location = Editor,
                       shellPath = Some ''/bin/bash'', shellArgs = Some [''-c'', '' && exit'']\<rparr>,
                     ShowTerminal 0 False,
                     ExecuteCommand ''workbench.action.terminal.focus'',
                     SetTimeout (PollFocus 1) 100,
                     ExecuteCommand ''workbench.action.closeAuxiliaryBar'']\<rparr>)"
  by (simp add: toggleJJUI_part000_def toggleWith_def createWindow_part000_def
      reloadIfConfigChange_def loadExtension_def loadConfig_def getPanelBehavior_def
      getWorkspaceFolder_part000_def activeEditorUri_def findExecutableOnPath_def onShown_def
      emit_def executeCommand_def pollFocus_def shouldHide_def shouldKeep_def
      exampleHost_def closedController_def Let_def)

text \<open>
  C3 (amended). In the second source file the working directory is, in this order: the
  workspace folder of the active editor's URI (the text editor's document, the
  notebook's when no text editor is active) when it lies in one; else the first
  workspace folder that holds the marker directory \<^verbatim>\<open>.jj\<close>; else the first workspace
  folder; else, when the list of workspace folders is undefined, the home directory.
  In \<^verbatim>\<open>src/extension.ts\<close> it is the workspace folder of the active text document, the home
  directory when that document lies in no workspace folder, and without an active text
  document the first workspace folder, the home directory when there is none; neither
  notebooks nor marker directories are looked at.
\<close>

theorem getWorkspaceFolder_precedence:
  "(activeEditorUri h = Some u \<and> folderOf h u = Some w
      \<longrightarrow> getWorkspaceFolder_part000 h = Inr w)
   \<and> ((\<forall>v. activeEditorUri h = Some v \<longrightarrow> folderOf h v = None)
      \<longrightarrow> (workspaceFolders h = Some (fs @ f # gs)
             \<and> (\<forall>g\<in>set fs. \<not> existsSync h (pathJoin h g ''.jj''))
             \<and> existsSync h (pathJoin h f ''.jj'')
           \<longrightarrow> getWorkspaceFolder_part000 h = Inr f)
        \<and> (workspaceFolders h = Some (f # gs)
             \<and> (\<forall>g\<in>set (f # gs). \<not> existsSync h (pathJoin h g ''.jj''))
           \<longrightarrow> getWorkspaceFolder_part000 h = Inr f)
        \<and> (workspaceFolders h = None \<longrightarrow> getWorkspaceFolder_part000 h = Inr (homedir h)))
   \<and> (activeTextEditor h = Some u \<and> folderOf h u = Some w \<longrightarrow> getWorkspaceFolder h = w)
   \<and> (activeTextEditor h = Some u \<and> folderOf h u = None \<longrightarrow> getWorkspaceFolder h = homedir h)
   \<and> (activeTextEditor h = None \<and> workspaceFolders h = Some (f # gs)
      \<longrightarrow> getWorkspaceFolder h = f)
   \<and> (activeTextEditor h = None \<and> (workspaceFolders h = None \<or> workspaceFolders h = Some [])
      \<longrightarrow> getWorkspaceFolder h = homedir h)"
proof (intro conjI impI)
  assume "activeEditorUri h = Some u \<and> folderOf h u = Some w"
  then show "getWorkspaceFolder_part000 h = Inr w"
    by (simp add: getWorkspaceFolder_part000_def)
next
  assume n: "\<forall>v. activeEditorUri h = Some v \<longrightarrow> folderOf h v = None"
  then have none: "(case activeEditorUri h of Some u \<Rightarrow> folderOf h u | None \<Rightarrow> None) = None"
    by (simp split: option.splits)
  {
    assume a: "workspaceFolders h = Some (fs @ f # gs)
             \<and> (\<forall>g\<in>set fs. \<not> existsSync h (pathJoin h g ''.jj''))
             \<and> existsSync h (pathJoin h f ''.jj'')"
    then have "find (\<lambda>f. existsSync h (pathJoin h f ''.jj'')) (fs @ f # gs) = Some f"
      by (intro find_first) simp_all
    with a show "getWorkspaceFolder_part000 h = Inr f"
      by (simp add: getWorkspaceFolder_part000_def none)
  }
  {
    assume a: "workspaceFolders h = Some (f # gs)
             \<and> (\<forall>g\<in>set (f # gs). \<not> existsSync h (pathJoin h g ''.jj''))"
    then have "find (\<lambda>f. existsSync h (pathJoin h f ''.jj'')) (f # gs) = None"
      by (simp add: find_None_iff)
    with a show "getWorkspaceFolder_part000 h = Inr f"
      by (simp add: getWorkspaceFolder_part000_def none)
  }
  {
    assume "workspaceFolders h = None"
    then show "getWorkspaceFolder_part000 h = Inr (homedir h)"
      by (simp add: getWorkspaceFolder_part000_def none)
  }
next
  assume "activeTextEditor h = Some u \<and> folderOf h u = Some w"
  then show "getWorkspaceFolder h = w" by (simp add: getWorkspaceFolder_def)
next
  assume "activeTextEditor h = Some u \<and> folderOf h u = None"
  then show "getWorkspaceFolder h = homedir h" by (simp add: getWorkspaceFolder_def)
next
  assume "activeTextEditor h = None \<and> workspaceFolders h = Some (f # gs)"
  then show "getWorkspaceFolder h = f" by (simp add: getWorkspaceFolder_def)
next
  assume "activeTextEditor h = None \<and> (workspaceFolders h = None \<or> workspaceFolders h = Some [])"
  then show "getWorkspaceFolder h = homedir h" by (auto simp add: getWorkspaceFolder_def)
qed

theorem getWorkspaceFolder_precedence_witness:
  "getWorkspaceFolder_part000 exampleHost = Inr ''/b''
   \<and> getWorkspaceFolder_part000 (exampleHost\<lparr>workspaceFolders := None\<rparr>) = Inr ''/home/u''
   \<and> getWorkspaceFolder (exampleHost\<lparr>workspaceFolders := None\<rparr>) = ''/home/u''"
  using getWorkspaceFolder_precedence [where h = exampleHost and fs = "[''/a'']"
      and f = "''/b''" and gs = "[]"]
    getWorkspaceFolder_precedence [where h = "exampleHost\<lparr>workspaceFolders := None\<rparr>"]
  by (simp add: exampleHost_def activeEditorUri_def)

theorem getWorkspaceFolder_marker_counterexample:
  "activeTextEditor exampleHost = None \<and> activeNotebookEditor exampleHost = None
   \<and> workspaceFolders exampleHost = Some [''/a'', ''/b'']
   \<and> \<not> existsSync exampleHost (pathJoin exampleHost ''/a'' ''.jj'')
   \<and> existsSync exampleHost (pathJoin exampleHost ''/b'' ''.jj'')
   \<and> getWorkspaceFolder exampleHost = ''/a''"
  by (simp add: getWorkspaceFolder_def exampleHost_def)

text \<open>
  C4. When a session that exists is hidden: if exactly one tab is open in all tab
  groups together, the session's terminal is disposed; otherwise the host is asked to
  open the previously used editor of the group and the terminal is not disposed. In both
  cases the stored handle is left as it is.
\<close>

theorem closeWindow_hide:
  "jjuiTerminal s = Some t \<longrightarrow>
     closeWindow h s =
       (if length (concat (tabGroups h)) = 1
        then s\<lparr>trace := trace s @ [DisposeTerminal t]\<rparr>
        else s\<lparr>trace := trace s @
               [ExecuteCommand ''workbench.action.openPreviousRecentlyUsedEditorInGroup'']\<rparr>)
     \<and> jjuiTerminal (closeWindow h s) = Some t"
  by (simp add: closeWindow_def emit_def executeCommand_def)

theorem closeWindow_hide_witness:
  "closeWindow focusedHost sessionController
     = sessionController\<lparr>trace := [DisposeTerminal 1]\<rparr>
   \<and> closeWindow (focusedHost\<lparr>tabGroups := [[0], [1, 2]]\<rparr>) sessionController
     = sessionController\<lparr>trace :=
         [ExecuteCommand ''workbench.action.openPreviousRecentlyUsedEditorInGroup'']\<rparr>"
  using closeWindow_hide [where s = sessionController and t = 1 and h = focusedHost]
    closeWindow_hide [where s = sessionController and t = 1
      and h = "focusedHost\<lparr>tabGroups := [[0], [1, 2]]\<rparr>"]
  by (simp add: sessionController_def focusedHost_def exampleHost_def)

text \<open>
  C5. The on-shown adjustment adds to the calls made, as a function of the
  configuration snapshot alone: with auto-maximize, the maximize-editor command and then
  the sidebar toggle exactly when the sidebar behaviour is keep; without auto-maximize,
  close-sidebar exactly when the sidebar behaviour is hide or hideRestore and then
  close-secondary-sidebar exactly when the secondary sidebar's is; and after either,
  close-panel exactly when the panel behaviour is hide or hideRestore.
\<close>

theorem onShown_commands:
  "onShown s = s\<lparr>trace := trace s @
      (if autoMaximizeWindow (globalConfig s)
       then ExecuteCommand ''workbench.action.maximizeEditorHideSidebar''
            # (if sidebar (panels (globalConfig s)) = Keep
               then [ExecuteCommand ''workbench.action.toggleSidebarVisibility''] else [])
       else (if sidebar (panels (globalConfig s)) \<in> {Hide, HideRestore}
             then [ExecuteCommand ''workbench.action.closeSidebar''] else [])
            @ (if secondarySidebar (panels (globalConfig s)) \<in> {Hide, HideRestore}
               then [ExecuteCommand ''workbench.action.closeAuxiliaryBar''] else []))
      @ (if panel (panels (globalConfig s)) \<in> {Hide, HideRestore}
         then [ExecuteCommand ''workbench.action.closePanel''] else [])\<rparr>"
  by (simp add: onShown_def executeCommand_def emit_def shouldKeep_def shouldHide_def Let_def)

theorem onShown_commands_witness:
  "trace (onShown sessionController)
     = [ExecuteCommand ''workbench.action.maximizeEditorHideSidebar'',
        ExecuteCommand ''workbench.action.toggleSidebarVisibility'',
        ExecuteCommand ''workbench.action.closePanel'']
   \<and> trace (onShown closedController) = [ExecuteCommand ''workbench.action.closeAuxiliaryBar'']"
  using onShown_commands [of sessionController] onShown_commands [of closedController]
  by (simp add: sessionController_def closedController_def)

text \<open>
  C6. The on-hidden adjustment adds to the calls made, as a function of the
  configuration snapshot alone: the toggle of the secondary sidebar exactly when its
  behaviour is hideRestore, the toggle of the panel exactly when its behaviour is
  hideRestore, the even-editor-widths command exactly when auto-maximize is enabled, and
  last a timer of 200 ms whose callback asks for the focus of the active editor group.
  No sidebar toggle is among them, whatever the sidebar behaviour.
\<close>

theorem onHide_commands:
  "onHide s = s\<lparr>trace := trace s @
      (if secondarySidebar (panels (globalConfig s)) = HideRestore
       then [ExecuteCommand ''workbench.action.toggleAuxiliaryBar''] else [])
      @ (if panel (panels (globalConfig s)) = HideRestore
         then [ExecuteCommand ''workbench.action.togglePanel''] else [])
      @ (if autoMaximizeWindow (globalConfig s)
         then [ExecuteCommand ''workbench.action.evenEditorWidths''] else [])
      @ [SetTimeout FocusActiveEditorGroup 200]\<rparr>
   \<and> ExecuteCommand ''workbench.action.toggleSidebarVisibility''
       \<notin> set (drop (length (trace s)) (trace (onHide s)))
   \<and> runCallback h FocusActiveEditorGroup s'
       = s'\<lparr>trace := trace s' @ [ExecuteCommand ''workbench.action.focusActiveEditorGroup'']\<rparr>"
  by (simp add: onHide_def executeCommand_def emit_def shouldRestore_def Let_def)

theorem onHide_commands_witness:
  "trace (onHide sessionController)
     = [ExecuteCommand ''workbench.action.toggleAuxiliaryBar'',
        ExecuteCommand ''workbench.action.togglePanel'',
        ExecuteCommand ''workbench.action.evenEditorWidths'',
        SetTimeout FocusActiveEditorGroup 200]
   \<and> trace (onHide (closedController\<lparr>globalConfig := globalConfig closedController
         \<lparr>panels := \<lparr>sidebar = HideRestore, panel = Hide, secondarySidebar = Keep\<rparr>\<rparr>\<rparr>))
     = [SetTimeout FocusActiveEditorGroup 200]"
  using onHide_commands [of sessionController]
    onHide_commands [of "closedController\<lparr>globalConfig := globalConfig closedController
         \<lparr>panels := \<lparr>sidebar = HideRestore, panel = Hide, secondarySidebar = Keep\<rparr>\<rparr>\<rparr>"]
  by (simp add: sessionController_def closedController_def)

text \<open>
  For every terminal-closed notification, delivered to all the listeners that the
  session creations so far have registered: if the closed terminal is the stored session
  handle, the handle is cleared and the on-hidden adjustments run once, however many
  listeners there are; if it is not, the controller is left as it is and no on-hidden
  adjustment runs. The controller is one that \<open>listening\<close> holds of, as it does at the
  start and after every toggle and every notification.
\<close>

lemma onDidCloseTerminal_once:
  "(listening s \<and> jjuiTerminal s = Some t \<longrightarrow>
      onDidCloseTerminal t s = onHide (s\<lparr>jjuiTerminal := None\<rparr>)
      \<and> jjuiTerminal (onDidCloseTerminal t s) = None
      \<and> length (filter (\<lambda>e. e = SetTimeout FocusActiveEditorGroup 200)
           (drop (length (trace s)) (trace (onDidCloseTerminal t s)))) = 1)
   \<and> (jjuiTerminal s \<noteq> Some t \<longrightarrow> onDidCloseTerminal t s = s)"
proof (intro conjI impI)
  assume a: "listening s \<and> jjuiTerminal s = Some t"
  then have "0 < closeListeners s"
    by (auto simp add: listening_def)
  with a show e: "onDidCloseTerminal t s = onHide (s\<lparr>jjuiTerminal := None\<rparr>)"
    by (simp add: closeListeners_fire)
  show "jjuiTerminal (onDidCloseTerminal t s) = None"
    by (simp add: e onHide_fields)
  show "length (filter (\<lambda>e. e = SetTimeout FocusActiveEditorGroup 200)
           (drop (length (trace s)) (trace (onDidCloseTerminal t s)))) = 1"
    using onHide_once [of "s\<lparr>jjuiTerminal := None\<rparr>"] by (simp add: e)
next
  assume "jjuiTerminal s \<noteq> Some t"
  then show "onDidCloseTerminal t s = s"
    by (simp add: onDidCloseTerminal_def closeListener_other)
qed

lemma onDidCloseTerminal_once_example:
  "closeListeners sessionController = 2
   \<and> onDidCloseTerminal 1 sessionController
       = sessionController\<lparr>jjuiTerminal := None,
           trace := [ExecuteCommand ''workbench.action.toggleAuxiliaryBar'',
                     ExecuteCommand ''workbench.action.togglePanel'',
                     ExecuteCommand ''workbench.action.evenEditorWidths'',
                     SetTimeout FocusActiveEditorGroup 200]\<rparr>
   \<and> onDidCloseTerminal 0 sessionController = sessionController"
  using onDidCloseTerminal_once [where s = sessionController and t = 1]
    onDidCloseTerminal_once [where s = sessionController and t = 0]
  by (simp add: sessionController_def listening_def onHide_def executeCommand_def emit_def
      shouldRestore_def Let_def)

text \<open>
  C7. The on-hidden adjustments do not run exactly once for every closure of the
  session. When a toggle hides the focused session and a single tab is open, it disposes
  the terminal, keeps the handle and runs the on-hidden adjustments; the notification of
  that closure then finds the handle still stored, clears it and runs them a second
  time, so that each restoring toggle is issued twice.
\<close>

theorem toggleJJUI_dispose_onHide_twice:
  "jjuiTerminal sessionController = Some 1
   \<and> toggleJJUI focusedHost sessionController
       = Inr (sessionController\<lparr>trace :=
               [DisposeTerminal 1,
                ExecuteCommand ''workbench.action.toggleAuxiliaryBar'',
                ExecuteCommand ''workbench.action.togglePanel'',
                ExecuteCommand ''workbench.action.evenEditorWidths'',
                SetTimeout FocusActiveEditorGroup 200]\<rparr>)
   \<and> toggleJJUI_part000 focusedHost sessionController
       = toggleJJUI focusedHost sessionController
   \<and> onDidCloseTerminal 1 (sessionController\<lparr>trace :=
               [DisposeTerminal 1,
                ExecuteCommand ''workbench.action.toggleAuxiliaryBar'',
                ExecuteCommand ''workbench.action.togglePanel'',
                ExecuteCommand ''workbench.action.evenEditorWidths'',
                SetTimeout FocusActiveEditorGroup 200]\<rparr>)
       = sessionController\<lparr>jjuiTerminal := None, trace :=
               [DisposeTerminal 1,
                ExecuteCommand ''workbench.action.toggleAuxiliaryBar'',
                ExecuteCommand ''workbench.action.togglePanel'',
                ExecuteCommand ''workbench.action.evenEditorWidths'',
                SetTimeout FocusActiveEditorGroup 200,
                ExecuteCommand ''workbench.action.toggleAuxiliaryBar'',
                ExecuteCommand ''workbench.action.togglePanel'',
                ExecuteCommand ''workbench.action.evenEditorWidths'',
                SetTimeout FocusActiveEditorGroup 200]\<rparr>"
  by (simp add: toggleJJUI_def toggleJJUI_part000_def toggleWith_def windowFocused_def
      closeWindow_def onDidCloseTerminal_def closeListener_def onHide_def executeCommand_def
      emit_def shouldRestore_def focusedHost_def exampleHost_def sessionController_def Let_def
      numeral_2_eq_2)

text \<open>
  C9. Bringing the session to the foreground without a session handle fails with the
  assertion error and changes nothing; with a session handle it shows the stored
  terminal, and a toggle on a controller that holds a session never fails.
\<close>

theorem focusWindow_assert:
  "(jjuiTerminal s = None \<longrightarrow> focusWindow s = Inl (AssertionError ''Terminal undefined!'', s))
   \<and> (jjuiTerminal s = Some t \<longrightarrow>
        focusWindow s = Inr (s\<lparr>trace := trace s @ [ShowTerminal t False]\<rparr>)
        \<and> (\<exists>s'. toggleJJUI h s = Inr s') \<and> (\<exists>s'. toggleJJUI_part000 h s = Inr s'))"
  by (simp add: focusWindow_def emit_def toggleJJUI_def toggleJJUI_part000_def toggleWith_def)

theorem focusWindow_assert_witness:
  "focusWindow closedController = Inl (AssertionError ''Terminal undefined!'', closedController)
   \<and> focusWindow sessionController
       = Inr (sessionController\<lparr>trace := [ShowTerminal 1 False]\<rparr>)"
  using focusWindow_assert [where s = closedController]
    focusWindow_assert [where s = sessionController and t = 1]
  by (simp add: closedController_def sessionController_def)

end
